theory Spec2Isabelle
  imports Complex_Main "HOL-Library.Sublist"
begin

section \<open>Data model of main2.py\<close>

text \<open>
  The program is a Streamlit page that fetches a price series, fits a Prophet model and
  shows the part of the forecast that lies in 2024 or later. Its own code is the helper
  \<^verbatim>\<open>fetch_mutual_fund_data\<close> and the two prediction branches (stock, mutual fund).

  Both series are daily, so a pandas \<^verbatim>\<open>Timestamp\<close> is modelled at the resolution of
  one calendar day: the number of days since 1970-01-01. \<^verbatim>\<open>NaT\<close> is \<open>None\<close>.
  A Python float is a real number, one of the two infinities, or \<^verbatim>\<open>NaN\<close>; rounding is
  not modelled, no definition below computes with the values.
\<close>

type_synonym timestamp = int

datatype pyfloat = Fin real | PosInf | NegInf | NaN

text \<open>
  \<^verbatim>\<open>Series.dt.year\<close>: the year of a day number in the proleptic Gregorian calendar
  (pandas' calendar), computed era by era (400 years are 146097 days; the count starts
  at 0000-03-01, which is day \<open>-719468\<close>).
\<close>

definition year_of :: "timestamp \<Rightarrow> int" where
  "year_of t =
     (let z = t + 719468;
          era = z div 146097;
          doe = z mod 146097;
          yoe = (doe - doe div 1460 + doe div 36524 - doe div 146096) div 365;
          doy = doe - (365 * yoe + yoe div 4 - yoe div 100);
          mp = (5 * doy + 2) div 153
      in yoe + era * 400 + (if mp < 10 then 0 else 1))"

text \<open>The day number of a calendar date, used to write dates in examples.\<close>

definition days_from_civil :: "int \<Rightarrow> int \<Rightarrow> int \<Rightarrow> timestamp" where
  "days_from_civil yr m d =
     (let y' = (if m \<le> 2 then yr - 1 else yr);
          era = y' div 400;
          yoe = y' mod 400;
          doy = (153 * (if m > 2 then m - 3 else m + 9) + 2) div 5 + d - 1;
          doe = yoe * 365 + yoe div 4 - yoe div 100 + doy
      in era * 146097 + doe - 719468)"

text \<open>
  Rows of the two data frames. Both have the column \<^verbatim>\<open>ds\<close>; the history frame adds
  \<^verbatim>\<open>y\<close>, the forecast frame the three columns the page displays. (Prophet's forecast
  frame has further component columns; the filter carries whole rows along, so they are
  not listed.)
\<close>

record dated =
  ds :: "timestamp option"

record series_row = dated +
  y :: pyfloat

record forecast_row = dated +
  yhat :: real
  yhat_lower :: real
  yhat_upper :: real

section \<open>Result filter (lines 99 and 145)\<close>

text \<open>
  \<^verbatim>\<open>forecast_filtered = forecast[forecast['ds'].dt.year >= 2024]\<close>

  The expression first builds a boolean column (the year of \<^verbatim>\<open>NaT\<close> is \<^verbatim>\<open>NaN\<close>, and
  \<^verbatim>\<open>NaN >= 2024\<close> is \<^verbatim>\<open>False\<close>), then selects the rows at which it is \<^verbatim>\<open>True\<close>.
  The cutoff is the literal 2024 in the source; it is a parameter of \<open>year_mask\<close> so
  that two cutoffs can be compared.
\<close>

definition dt_year :: "timestamp option \<Rightarrow> int option" where
  "dt_year t = map_option year_of t"

definition year_ge :: "int \<Rightarrow> 'a dated_scheme \<Rightarrow> bool" where
  "year_ge cutoff r = (case dt_year (ds r) of None \<Rightarrow> False | Some yr \<Rightarrow> cutoff \<le> yr)"

definition year_mask :: "int \<Rightarrow> 'a dated_scheme list \<Rightarrow> bool list" where
  "year_mask cutoff frame = map (year_ge cutoff) frame"

definition boolean_index :: "'r list \<Rightarrow> bool list \<Rightarrow> 'r list" where
  "boolean_index frame keep = map fst (filter snd (zip frame keep))"

definition filter_by_year :: "int \<Rightarrow> 'a dated_scheme list \<Rightarrow> 'a dated_scheme list" where
  "filter_by_year cutoff frame = boolean_index frame (year_mask cutoff frame)"

definition forecast_filtered :: "forecast_row list \<Rightarrow> forecast_row list" where
  "forecast_filtered forecast = filter_by_year 2024 forecast"





text \<open>A daily forecast frame over a range of days, for examples.\<close>

definition daily_forecast :: "timestamp \<Rightarrow> nat \<Rightarrow> forecast_row list" where
  "daily_forecast start n =
     map (\<lambda>k. \<lparr>ds = Some (start + int k), yhat = 100, yhat_lower = 90, yhat_upper = 110\<rparr>) [0..<n]"

section \<open>The forecast model (lines 77-92 and 127-138)\<close>

text \<open>
  \<^verbatim>\<open>Prophet(...)\<close> is called with keyword arguments; an argument that is not given
  takes the default of Prophet's constructor. The constructor belongs to the library,
  not to this repository: its defaults are taken from the library's signature
  (\<^verbatim>\<open>yearly_seasonality='auto'\<close>, \<^verbatim>\<open>weekly_seasonality='auto'\<close>,
  \<^verbatim>\<open>daily_seasonality='auto'\<close>, \<^verbatim>\<open>holidays=None\<close>,
  \<^verbatim>\<open>seasonality_mode='additive'\<close>, \<^verbatim>\<open>changepoint_prior_scale=0.05\<close>).
  The table returned by \<^verbatim>\<open>make_holidays_df\<close> is a parameter.
\<close>

datatype seasonality_mode = Additive | Multiplicative

datatype seasonality_setting = Auto | Enabled | Disabled

type_synonym holidays_df = "(timestamp \<times> string) list"

record prophet =
  seasonality_mode :: seasonality_mode
  changepoint_prior_scale :: real
  yearly_seasonality :: seasonality_setting
  weekly_seasonality :: seasonality_setting
  daily_seasonality :: seasonality_setting
  holidays :: "holidays_df option"
  seasonalities :: "string \<rightharpoonup> real \<times> nat"

record prophet_kwargs =
  kw_seasonality_mode :: "seasonality_mode option"
  kw_changepoint_prior_scale :: "real option"
  kw_yearly_seasonality :: "seasonality_setting option"
  kw_weekly_seasonality :: "seasonality_setting option"
  kw_daily_seasonality :: "seasonality_setting option"
  kw_holidays :: "holidays_df option"

definition no_kwargs :: prophet_kwargs where
  "no_kwargs =
     \<lparr>kw_seasonality_mode = None, kw_changepoint_prior_scale = None,
      kw_yearly_seasonality = None, kw_weekly_seasonality = None,
      kw_daily_seasonality = None, kw_holidays = None\<rparr>"

definition default_to :: "'a \<Rightarrow> 'a option \<Rightarrow> 'a" where
  "default_to d v = (case v of None \<Rightarrow> d | Some x \<Rightarrow> x)"

definition Prophet :: "prophet_kwargs \<Rightarrow> prophet" where
  "Prophet kw =
     \<lparr>seasonality_mode = default_to Additive (kw_seasonality_mode kw),
      changepoint_prior_scale = default_to (5 / 100) (kw_changepoint_prior_scale kw),
      yearly_seasonality = default_to Auto (kw_yearly_seasonality kw),
      weekly_seasonality = default_to Auto (kw_weekly_seasonality kw),
      daily_seasonality = default_to Auto (kw_daily_seasonality kw),
      holidays = kw_holidays kw,
      seasonalities = Map.empty\<rparr>"

text \<open>
  \<^verbatim>\<open>model.add_seasonality(name=..., period=..., fourier_order=...)\<close> stores the entry
  under its name in the dictionary \<^verbatim>\<open>seasonalities\<close> of the model it is called on.
\<close>

definition add_seasonality :: "string \<Rightarrow> real \<Rightarrow> nat \<Rightarrow> prophet \<Rightarrow> prophet" where
  "add_seasonality name period fourier_order model =
     model\<lparr>seasonalities := (seasonalities model)(name \<mapsto> (period, fourier_order))\<rparr>"

text \<open>The keyword arguments of lines 77-83 and 127-133.\<close>

definition configured_kwargs :: prophet_kwargs where
  "configured_kwargs =
     \<lparr>kw_seasonality_mode = Some Multiplicative, kw_changepoint_prior_scale = Some (5 / 100),
      kw_yearly_seasonality = Some Enabled, kw_weekly_seasonality = Some Enabled,
      kw_daily_seasonality = Some Disabled, kw_holidays = None\<rparr>"

text \<open>
  Stock branch, lines 77-91: the variable \<^verbatim>\<open>model\<close> is bound to the configured object,
  which receives two seasonalities, and is then bound again, to a new object that is
  given the holidays only. \<open>stock_model\<close> is the object \<^verbatim>\<open>model.fit\<close> is called on
  in line 92. (\<^verbatim>\<open>changepoint_dates\<close> of line 85 is never used.)
\<close>

definition stock_model :: "holidays_df \<Rightarrow> prophet" where
  "stock_model holidays_in =
     (let model = Prophet configured_kwargs;
          model = add_seasonality ''monthly'' (61 / 2) 5 model;
          model = add_seasonality ''weekly'' 7 3 model;
          model = Prophet (no_kwargs\<lparr>kw_holidays := Some holidays_in\<rparr>)
      in model)"

text \<open>Mutual-fund branch, lines 127-137; fitted in line 138.\<close>

definition mutual_fund_model :: "holidays_df \<Rightarrow> prophet" where
  "mutual_fund_model holidays_in =
     (let model = Prophet configured_kwargs;
          model = Prophet (no_kwargs\<lparr>kw_holidays := Some holidays_in\<rparr>)
      in model)"

text \<open>The configuration that lines 77-83 and 127-133 write down.\<close>

definition has_fixed_configuration :: "prophet \<Rightarrow> bool" where
  "has_fixed_configuration model =
     (seasonality_mode model = Multiplicative \<and> yearly_seasonality model = Enabled \<and>
      weekly_seasonality model = Enabled \<and> daily_seasonality model = Disabled \<and>
      changepoint_prior_scale model = 5 / 100)"

section \<open>The future frame (lines 95 and 141)\<close>

text \<open>
  \<^verbatim>\<open>future = model.make_future_dataframe(periods=90)\<close>

  Prophet's method, with its defaults \<^verbatim>\<open>freq='D'\<close> and \<^verbatim>\<open>include_history=True\<close>,
  modelled from the library: \<^verbatim>\<open>fit\<close>, where it returns, has stored the distinct
  timestamps of the frame in ascending order (\<^verbatim>\<open>NaT\<close> last) as \<^verbatim>\<open>history_dates\<close>;
  the method takes their maximum as \<^verbatim>\<open>last_date\<close>, builds
  \<^verbatim>\<open>date_range(start=last_date, periods=periods + 1, freq='D')\<close>, keeps the dates after
  \<^verbatim>\<open>last_date\<close>, at most \<^verbatim>\<open>periods\<close> of them, and appends them to the stored dates.
  Without a date to start from, \<^verbatim>\<open>date_range\<close> raises.
\<close>

definition history_dates :: "'a dated_scheme list \<Rightarrow> timestamp option list" where
  "history_dates df =
     (let col = map ds df
      in map Some (sort (remdups (List.map_filter id col))) @
         (if None \<in> set col then [None] else []))"

definition date_range :: "timestamp \<Rightarrow> nat \<Rightarrow> timestamp list" where
  "date_range start periods = map (\<lambda>k. start + int k) [0..<periods]"

definition make_future_dataframe :: "timestamp option list \<Rightarrow> nat \<Rightarrow> string + timestamp option list" where
  "make_future_dataframe hist periods =
     (case List.map_filter id hist of
        [] \<Rightarrow> Inl ''Neither `start` nor `end` can be NaT''
      | t # ts \<Rightarrow>
          (let last_date = fold max ts t;
               dates = date_range last_date (periods + 1);
               dates = filter (\<lambda>d. last_date < d) dates;
               dates = take periods dates
           in Inr (hist @ map Some dates)))"

definition future :: "'a dated_scheme list \<Rightarrow> string + timestamp option list" where
  "future df = make_future_dataframe (history_dates df) 90"

text \<open>
  A canonical series, as the data model of the specification has it: at least two
  rows, no missing timestamp, timestamps strictly increasing.
\<close>

definition timestamps :: "'a dated_scheme list \<Rightarrow> timestamp list" where
  "timestamps df = List.map_filter ds df"

definition canonical :: "'a dated_scheme list \<Rightarrow> bool" where
  "canonical df =
     (2 \<le> length df \<and> list_all (\<lambda>r. ds r \<noteq> None) df \<and> sorted_wrt (<) (timestamps df))"

section \<open>fetch_mutual_fund_data (lines 9-29)\<close>

text \<open>
  An exception is an instance of \<^verbatim>\<open>Exception\<close>, which line 28 catches, or it is not
  (\<^verbatim>\<open>KeyboardInterrupt\<close>, \<^verbatim>\<open>SystemExit\<close>); either way it has a text, \<^verbatim>\<open>str(e)\<close>.
\<close>

datatype exn = Exception string | BaseException string

text \<open>
  What the function receives from outside is the result of lines 12-13,
  \<^verbatim>\<open>requests.get(url)\<close> followed by \<^verbatim>\<open>response.json()\<close>: either of the two calls
  raises, or the body decodes to a JSON object. Of that object only the member
  \<^verbatim>\<open>data\<close> is read: it is missing, \<^verbatim>\<open>null\<close>, or an array of records. A record is an
  object with the members \<^verbatim>\<open>date\<close> (a string) and \<^verbatim>\<open>nav\<close> (a number or a string),
  each of which may be missing or \<^verbatim>\<open>null\<close>. This is the shape of the provider's
  answers; a body that is not an object, a \<^verbatim>\<open>data\<close> member of another kind and
  records with other members are outside the type.
\<close>

datatype 'a cell = Absent | Null | Val 'a

datatype jvalue = JNum pyfloat | JStr string

record raw_record =
  date :: "string cell"
  nav :: "jvalue cell"

datatype data_field = NoKey | JNull | Records "raw_record list"

datatype http_result = Raised exn | Json data_field

text \<open>
  What pandas does is a parameter of the model.

  \<^item> \<^verbatim>\<open>pd.to_datetime\<close> is applied to a whole column, for which pandas settles on one
    format: it raises, or it returns a series with the index of the column, given here
    by its value at each position. A value may be \<^verbatim>\<open>NaT\<close>, also for a string.
  \<^item> \<open>parse_numeric\<close> is the number a string stands for, if any, as
    \<^verbatim>\<open>pd.to_numeric\<close> reads it.
  \<^item> \<open>fault n\<close> is the exception, if any, with which the pandas call of line \<open>n\<close>
    (18, 20, 21 or 22) ends for a reason that is not in the data: memory that runs
    out, an interrupt.
\<close>

record pandas =
  to_datetime :: "string cell list \<Rightarrow> exn + (nat \<Rightarrow> timestamp option)"
  parse_numeric :: "string \<Rightarrow> pyfloat option"
  fault :: "nat \<Rightarrow> exn option"

definition raising :: "exn option \<Rightarrow> exn + 'a \<Rightarrow> exn + 'a" where
  "raising f rest = (case f of Some e \<Rightarrow> Inl e | None \<Rightarrow> rest)"

definition url :: "string \<Rightarrow> string" where
  "url fund_code =
     ''https://www.nseindia.com/api/mf/owe/get-historical-data?schemeCode='' @ fund_code @
     ''&fromDate=20200101&toDate=20231231''"

definition no_data_message :: string where
  "no_data_message = ''No data available for the specified mutual fund code.''"

definition not_enough_message :: string where
  "not_enough_message = ''Not enough data points for prediction.''"

text \<open>\<^verbatim>\<open>str(KeyError(k))\<close> is the key in quotes.\<close>

definition key_error :: "string \<Rightarrow> string" where
  "key_error k = [CHR 0x27] @ k @ [CHR 0x27]"

text \<open>
  \<^verbatim>\<open>pd.DataFrame(records)\<close> has a column for every key that occurs in some record; a
  record without the key has \<^verbatim>\<open>NaN\<close> in that column.
\<close>

definition has_column :: "(raw_record \<Rightarrow> 'a cell) \<Rightarrow> raw_record list \<Rightarrow> bool" where
  "has_column field records = list_ex (\<lambda>r. field r \<noteq> Absent) records"

text \<open>
  Line 21, \<^verbatim>\<open>pd.to_numeric(df['y'], errors='coerce')\<close>: a number stays, a string
  is read as a number, and whatever is not a number becomes \<^verbatim>\<open>NaN\<close>.
\<close>

definition to_numeric_coerce :: "pandas \<Rightarrow> jvalue cell \<Rightarrow> pyfloat" where
  "to_numeric_coerce lib c =
     (case c of
        Val (JNum x) \<Rightarrow> x
      | Val (JStr s) \<Rightarrow> (case parse_numeric lib s of None \<Rightarrow> NaN | Some x \<Rightarrow> x)
      | _ \<Rightarrow> NaN)"

text \<open>Line 22, \<^verbatim>\<open>df.dropna(subset=['y'])\<close>.\<close>

definition dropna_y :: "series_row list \<Rightarrow> series_row list" where
  "dropna_y df = filter (\<lambda>r. y r \<noteq> NaN) df"

text \<open>
  The body of the \<^verbatim>\<open>try\<close>, lines 11-27: \<open>Inl\<close> is an exception raised inside it,
  \<open>Inr\<close> the pair a \<^verbatim>\<open>return\<close> statement gives. Line 19 reads the column
  \<^verbatim>\<open>date\<close> before it calls \<^verbatim>\<open>pd.to_datetime\<close>, line 21 the column \<^verbatim>\<open>y\<close> before
  it calls \<^verbatim>\<open>pd.to_numeric\<close>; a column that does not exist is a \<^verbatim>\<open>KeyError\<close>. The
  rows of the frame are numbered as the records are (\<open>enumerate\<close>).
\<close>

type_synonym fetch_result = "series_row list option \<times> string option"

definition fetch_try :: "pandas \<Rightarrow> (string \<Rightarrow> http_result) \<Rightarrow> string \<Rightarrow> exn + fetch_result" where
  "fetch_try lib http_get fund_code =
     (case http_get (url fund_code) of
        Raised e \<Rightarrow> Inl e
      | Json NoKey \<Rightarrow> Inl (Exception (key_error ''data''))
      | Json JNull \<Rightarrow> Inr (None, Some no_data_message)
      | Json (Records records) \<Rightarrow>
          if records = [] then Inr (None, Some no_data_message)
          else raising (fault lib 18)
           (if \<not> has_column date records then Inl (Exception (key_error ''date''))
            else (case to_datetime lib (map date records) of
               Inl e \<Rightarrow> Inl e
             | Inr dates \<Rightarrow>
                 raising (fault lib 20)
                  (if \<not> has_column nav records then Inl (Exception (key_error ''y''))
                   else raising (fault lib 21)
                    (let df = map (\<lambda>p. \<lparr>ds = dates (fst p),
                                         y = to_numeric_coerce lib (nav (snd p))\<rparr>)
                                (enumerate 0 records)
                     in raising (fault lib 22)
                      (let df = dropna_y df
                       in if length df < 2 then Inr (None, Some not_enough_message)
                          else Inr (Some df, None)))))))"

text \<open>
  Lines 10, 28 and 29: an instance of \<^verbatim>\<open>Exception\<close> is caught and its text
  returned; any other exception leaves the function (\<open>Inl\<close>).
\<close>

definition fetch_mutual_fund_data :: "pandas \<Rightarrow> (string \<Rightarrow> http_result) \<Rightarrow> string \<Rightarrow> exn + fetch_result" where
  "fetch_mutual_fund_data lib http_get fund_code =
     (case fetch_try lib http_get fund_code of
        Inl (Exception text) \<Rightarrow> Inr (None, Some text)
      | Inl (BaseException text) \<Rightarrow> Inl (BaseException text)
      | Inr result \<Rightarrow> Inr result)"

text \<open>
  In the words of the specification: the value of a record is coerced to a number (a
  number stays, a string that stands for a number becomes that number), a row whose
  value fails coercion (it is missing, not a number, or \<^verbatim>\<open>NaN\<close>) is dropped, and the
  valid rows are the others, each with the timestamp of its position and its number,
  in the order of the records.
\<close>

definition numeric :: "pandas \<Rightarrow> jvalue cell \<Rightarrow> pyfloat option" where
  "numeric lib c =
     (case c of
        Val (JNum x) \<Rightarrow> (if x = NaN then None else Some x)
      | Val (JStr s) \<Rightarrow>
          (case parse_numeric lib s of
             None \<Rightarrow> None
           | Some x \<Rightarrow> (if x = NaN then None else Some x))
      | _ \<Rightarrow> None)"

definition valid_rows :: "pandas \<Rightarrow> (nat \<Rightarrow> timestamp option) \<Rightarrow> raw_record list \<Rightarrow> series_row list" where
  "valid_rows lib dates records =
     List.map_filter (\<lambda>p. map_option (\<lambda>x. \<lparr>ds = dates (fst p), y = x\<rparr>) (numeric lib (nav (snd p))))
       (enumerate 0 records)"

definition has_value :: "pandas \<Rightarrow> raw_record \<Rightarrow> bool" where
  "has_value lib r = (numeric lib (nav r) \<noteq> None)"

text \<open>The pandas calls of lines 18, 20, 21 and 22 all return.\<close>

definition no_fault :: "pandas \<Rightarrow> bool" where
  "no_fault lib =
     (fault lib 18 = None \<and> fault lib 20 = None \<and> fault lib 21 = None \<and> fault lib 22 = None)"

subsection \<open>A provider and a parser for examples\<close>

text \<open>
  A server that gives the same answer to every request, and stand-ins for pandas:
  dates written \<^verbatim>\<open>YYYY-MM-DD\<close> are read, the empty string and the spellings of
  \<^verbatim>\<open>NaT\<close> and \<^verbatim>\<open>NaN\<close> are read as \<^verbatim>\<open>NaT\<close>, and a column with any other string
  raises a \<^verbatim>\<open>ValueError\<close>; numbers written with decimal digits are read; no call ends
  for a reason outside the data. The text of the \<^verbatim>\<open>ValueError\<close> stands for the one
  pandas gives, which depends on its version.
\<close>

definition always :: "http_result \<Rightarrow> string \<Rightarrow> http_result" where
  "always r request = r"

definition digit :: "char \<Rightarrow> nat option" where
  "digit c = (let n = (of_char c :: nat) in if 48 \<le> n \<and> n \<le> 57 then Some (n - 48) else None)"

fun digits :: "nat \<Rightarrow> string \<Rightarrow> nat option" where
  "digits acc [] = Some acc"
| "digits acc (c # cs) = (case digit c of None \<Rightarrow> None | Some d \<Rightarrow> digits (10 * acc + d) cs)"

definition number :: "string \<Rightarrow> nat option" where
  "number s = (if s = [] then None else digits 0 s)"

definition days_in_month :: "int \<Rightarrow> int \<Rightarrow> int" where
  "days_in_month yr m =
     (if m = 2 then (if yr mod 4 = 0 \<and> (yr mod 100 \<noteq> 0 \<or> yr mod 400 = 0) then 29 else 28)
      else if m = 4 \<or> m = 6 \<or> m = 9 \<or> m = 11 then 30 else 31)"

definition iso_date :: "string \<Rightarrow> timestamp option" where
  "iso_date s =
     (if length s = 10 \<and> s ! 4 = CHR ''-'' \<and> s ! 7 = CHR ''-'' then
        (case (number (take 4 s), number (take 2 (drop 5 s)), number (drop 8 s)) of
           (Some yr, Some m, Some d) \<Rightarrow>
             if 1 \<le> m \<and> m \<le> 12 \<and> 1 \<le> d \<and> int d \<le> days_in_month (int yr) (int m)
             then Some (days_from_civil (int yr) (int m) (int d))
             else None
         | _ \<Rightarrow> None)
      else None)"

definition nat_strings :: "string list" where
  "nat_strings = ['''', ''NaT'', ''nat'', ''NAT'', ''nan'', ''NaN'', ''NAN'']"

definition readable :: "string cell \<Rightarrow> bool" where
  "readable c = (case c of Val s \<Rightarrow> s \<in> set nat_strings \<or> iso_date s \<noteq> None | _ \<Rightarrow> True)"

definition datetime_error_text :: string where
  "datetime_error_text = ''Unknown datetime string format, unable to parse''"

definition datetime_at :: "string cell list \<Rightarrow> nat \<Rightarrow> timestamp option" where
  "datetime_at col i =
     (if i < length col then (case col ! i of Val s \<Rightarrow> iso_date s | _ \<Rightarrow> None) else None)"

definition sample_to_datetime :: "string cell list \<Rightarrow> exn + (nat \<Rightarrow> timestamp option)" where
  "sample_to_datetime col =
     (if list_all readable col then Inr (datetime_at col)
      else Inl (Exception datetime_error_text))"

definition decimal :: "string \<Rightarrow> pyfloat option" where
  "decimal s = map_option (\<lambda>n. Fin (real n)) (number s)"

definition sample_pandas :: pandas where
  "sample_pandas =
     \<lparr>to_datetime = sample_to_datetime, parse_numeric = decimal, fault = (\<lambda>n. None)\<rparr>"


definition MemoryError :: exn where
  "MemoryError = Exception []"

text \<open>Provider responses and series used in the examples below.\<close>

definition bad_value_response :: http_result where
  "bad_value_response =
     Json (Records [\<lparr>date = Val ''2023-01-01'', nav = Val (JNum (Fin 100))\<rparr>,
                    \<lparr>date = Val ''2023-01-02'', nav = Val (JStr ''bad'')\<rparr>])"

definition string_value_response :: http_result where
  "string_value_response =
     Json (Records [\<lparr>date = Val ''2023-01-01'', nav = Val (JNum (Fin 100))\<rparr>,
                    \<lparr>date = Val ''2023-01-02'', nav = Val (JStr ''101'')\<rparr>,
                    \<lparr>date = Val ''2023-01-03'', nav = Null\<rparr>])"

definition no_nav_response :: http_result where
  "no_nav_response =
     Json (Records [\<lparr>date = Val ''2023-01-01'', nav = Absent\<rparr>,
                    \<lparr>date = Val ''2023-01-02'', nav = Absent\<rparr>])"

definition bad_date_response :: http_result where
  "bad_date_response =
     Json (Records [\<lparr>date = Val ''2023-01-01'', nav = Val (JNum (Fin 100))\<rparr>,
                    \<lparr>date = Val ''bad'', nav = Val (JNum (Fin 101))\<rparr>,
                    \<lparr>date = Val ''2023-01-03'', nav = Val (JNum (Fin 102))\<rparr>])"

definition empty_date_response :: http_result where
  "empty_date_response =
     Json (Records [\<lparr>date = Val ''2023-01-01'', nav = Val (JNum (Fin 100))\<rparr>,
                    \<lparr>date = Val '''', nav = Val (JNum (Fin 101))\<rparr>,
                    \<lparr>date = Val ''2023-01-03'', nav = Val (JNum (Fin 102))\<rparr>])"

definition good_response :: http_result where
  "good_response =
     Json (Records [\<lparr>date = Val ''2023-01-01'', nav = Val (JNum (Fin 100))\<rparr>,
                    \<lparr>date = Val ''2023-01-03'', nav = Val (JNum (Fin 102))\<rparr>])"

definition two_day_series :: "series_row list" where
  "two_day_series = [\<lparr>ds = Some 19358, y = Fin 100\<rparr>, \<lparr>ds = Some 19359, y = Fin 101\<rparr>]"


section \<open>Properties of the result filter\<close>

lemma boolean_index_map: "boolean_index frame (map P frame) = filter P frame"
  unfolding boolean_index_def
  by (induction frame) auto

lemma filter_by_year_filter: "filter_by_year c frame = filter (year_ge c) frame"
  unfolding filter_by_year_def year_mask_def by (rule boolean_index_map)

lemma year_ge_mono: "c1 \<le> c2 \<Longrightarrow> year_ge c2 r \<Longrightarrow> year_ge c1 r"
  unfolding year_ge_def by (auto split: option.splits)

lemma length_filter_mono:
  "(\<And>x. x \<in> set xs \<Longrightarrow> P x \<Longrightarrow> Q x) \<Longrightarrow> length (filter P xs) \<le> length (filter Q xs)"
  by (induction xs) auto

text \<open>
  C2. The filtered forecast consists of exactly the rows of the forecast whose timestamp
  has a year of 2024 or later: the same rows (nothing in a row is changed), as often as
  they occur, in the order they have in the forecast.
\<close>

theorem forecast_filtered_exact:
  "forecast_filtered forecast = filter (year_ge 2024) forecast \<and>
   subseq (forecast_filtered forecast) forecast \<and>
   set (forecast_filtered forecast) =
     {r. r \<in> set forecast \<and> (\<exists>t. ds r = Some t \<and> 2024 \<le> year_of t)}"
proof -
  have eq: "forecast_filtered forecast = filter (year_ge 2024) forecast"
    unfolding forecast_filtered_def by (rule filter_by_year_filter)
  have mem: "year_ge 2024 r \<longleftrightarrow> (\<exists>t. ds r = Some t \<and> 2024 \<le> year_of t)" for r :: forecast_row
    unfolding year_ge_def dt_year_def by (cases "ds r") auto
  show ?thesis
    unfolding eq using mem by auto
qed

text \<open>
  The scenario of the specification: a daily forecast from 2023-10-01 (day 19631) to
  2024-03-01 (day 19783) keeps the rows from 2024-01-01 (day 19723) on.
\<close>

theorem forecast_filtered_scenario:
  "forecast_filtered (daily_forecast 19631 153) = daily_forecast 19723 61"
proof -
  have "filter (year_ge 2024) (daily_forecast 19631 153) = daily_forecast 19723 61"
    by code_simp
  with forecast_filtered_exact[of "daily_forecast 19631 153"] show ?thesis
    by simp
qed

text \<open>
  C8. Raising the cutoff year never increases the number of rows the filter returns.
\<close>

theorem filter_by_year_monotonic:
  "c1 \<le> c2 \<Longrightarrow> length (filter_by_year c2 frame) \<le> length (filter_by_year c1 frame)"
  unfolding filter_by_year_filter
  by (rule length_filter_mono) (rule year_ge_mono)

theorem filter_by_year_monotonic_witness:
  "(2023 :: int) \<le> 2024 \<and>
   length (filter_by_year 2024 (daily_forecast 19631 153))
     \<le> length (filter_by_year 2023 (daily_forecast 19631 153))"
  using filter_by_year_monotonic[of 2023 2024 "daily_forecast 19631 153"] by simp


section \<open>Properties of the forecast model\<close>

text \<open>
  C1. The fitted model does not have the configuration written down in lines 77-83 and
  127-133. In both branches the object that is fitted is the second one, built from the
  holidays alone, so every other setting is Prophet's default: additive seasonality and
  automatic seasonal components. The seasonalities added in lines 86-87 are lost with
  the first object.
\<close>

theorem fitted_model_default_configuration:
  "stock_model h = Prophet (no_kwargs\<lparr>kw_holidays := Some h\<rparr>) \<and>
   mutual_fund_model h = Prophet (no_kwargs\<lparr>kw_holidays := Some h\<rparr>) \<and>
   seasonality_mode (stock_model h) = Additive \<and>
   seasonality_mode (mutual_fund_model h) = Additive \<and>
   yearly_seasonality (mutual_fund_model h) = Auto \<and>
   weekly_seasonality (mutual_fund_model h) = Auto \<and>
   daily_seasonality (mutual_fund_model h) = Auto \<and>
   seasonalities (stock_model h) = Map.empty \<and>
   \<not> has_fixed_configuration (stock_model h) \<and>
   \<not> has_fixed_configuration (mutual_fund_model h)"
  by (simp add: stock_model_def mutual_fund_model_def Prophet_def no_kwargs_def
      default_to_def has_fixed_configuration_def Let_def)

section \<open>Properties of the future frame\<close>

lemma map_filter_id_Some: "List.map_filter id (map Some ts) = ts"
  by (induction ts) (simp_all add: List.map_filter_simps)

lemma no_nat_column:
  "list_all (\<lambda>r. ds r \<noteq> None) df \<Longrightarrow> map ds df = map Some (timestamps df)"
  unfolding timestamps_def
  by (induction df) (auto simp: List.map_filter_simps)

lemma history_dates_canonical:
  assumes "list_all (\<lambda>r. ds r \<noteq> None) df" and "sorted_wrt (<) (timestamps df)"
  shows "history_dates df = map ds df"
proof -
  let ?ts = "timestamps df"
  have col: "map ds df = map Some ?ts" by (rule no_nat_column[OF assms(1)])
  have "distinct ?ts" using assms(2) strict_sorted_iff by blast
  moreover have "sorted ?ts" using assms(2) strict_sorted_iff by blast
  ultimately have "sort (remdups ?ts) = ?ts"
    by (simp add: sorted_sort_id)
  then show ?thesis
    unfolding history_dates_def Let_def col by (auto simp: map_filter_id_Some)
qed

lemma fold_max_last: "sorted (t # ts) \<Longrightarrow> fold max ts t = last (t # ts)"
proof (induction ts arbitrary: t)
  case Nil
  then show ?case by simp
next
  case (Cons a ts)
  then have "max a t = a" by simp
  with Cons show ?case by simp
qed

lemma date_range_after:
  "take periods (filter (\<lambda>d. t < d) (date_range t (periods + 1)))
     = map (\<lambda>k. t + int k) [1..<Suc periods]"
proof -
  have "filter (\<lambda>d. t < d) (date_range t (periods + 1))
          = map (\<lambda>k. t + int k) (filter (\<lambda>k. 0 < k) [0..<Suc periods])"
    unfolding date_range_def by (simp add: filter_map comp_def)
  also have "filter (\<lambda>k. 0 < k) [0..<Suc periods] = [1..<Suc periods]"
    by (simp add: upt_conv_Cons del: upt_Suc)
  finally show ?thesis by simp
qed

text \<open>
  C5. For a canonical series whose last timestamp is \<open>t\<close>, the future frame is the
  series' timestamps followed by the 90 days \<open>t + 1\<close>, ..., \<open>t + 90\<close>: it ends 90
  calendar days after the last historical timestamp.
\<close>

theorem future_extends_90_days:
  assumes "canonical df" and "ds (last df) = Some t"
  shows "future df = Inr (map ds df @ map (\<lambda>k. Some (t + int k)) [1..<91]) \<and>
         (\<exists>dates. future df = Inr dates \<and> last dates = Some (t + 90) \<and>
            length dates = length df + 90)"
proof -
  let ?ts = "timestamps df"
  have nn: "list_all (\<lambda>r. ds r \<noteq> None) df" and ss: "sorted_wrt (<) ?ts"
    and len: "2 \<le> length df"
    using assms(1) by (simp_all add: canonical_def)
  have col: "map ds df = map Some ?ts" by (rule no_nat_column[OF nn])
  have ne: "df \<noteq> []" using len by auto
  then have "?ts \<noteq> []" using col by (metis map_is_Nil_conv)
  then obtain t0 ts' where ts: "?ts = t0 # ts'" by (cases ?ts) auto
  have "Some (last ?ts) = last (map Some ?ts)" using \<open>?ts \<noteq> []\<close> by (simp add: last_map)
  also have "\<dots> = ds (last df)" using ne col[symmetric] by (simp add: last_map)
  finally have lt: "last ?ts = t" using assms(2) by simp
  have "sorted ?ts" using ss strict_sorted_iff by blast
  then have mx: "fold max ts' t0 = t" using fold_max_last[of t0 ts'] ts lt by simp
  have hd: "history_dates df = map Some ?ts"
    using history_dates_canonical[OF nn ss] col by simp
  have fut: "future df = Inr (map ds df @ map (\<lambda>k. Some (t + int k)) [1..<91])"
    unfolding future_def make_future_dataframe_def hd map_filter_id_Some ts
    using mx date_range_after[of 90 t] col ts
    by (simp add: Let_def comp_def)
  have "last (map ds df @ map (\<lambda>k. Some (t + int k)) [1..<91]) = Some (t + 90)"
    by (simp add: last_map del: upt_Suc)
  with fut show ?thesis by simp
qed

text \<open>
  A series of 2023-01-01 and 2023-01-02 (days 19358 and 19359): the future frame has
  92 rows and ends on 2023-04-02 (day 19449).
\<close>

theorem future_extends_90_days_witness:
  "canonical two_day_series \<and>
   (\<exists>dates. future two_day_series = Inr dates \<and> last dates = Some 19449 \<and> length dates = 92)"
proof -
  have c: "canonical two_day_series"
    by (simp add: two_day_series_def canonical_def timestamps_def List.map_filter_simps)
  have d: "ds (last two_day_series) = Some 19359"
    by (simp add: two_day_series_def)
  from future_extends_90_days[OF c d] have
    "\<exists>dates. future two_day_series = Inr dates \<and> last dates = Some (19359 + 90) \<and>
       length dates = length two_day_series + 90"
    by (rule conjunct2)
  then show ?thesis using c by (simp add: two_day_series_def)
qed


section \<open>Properties of the forecast table\<close>




section \<open>Properties of fetch_mutual_fund_data\<close>

lemma rows_dropna:
  "dropna_y (map (\<lambda>p. \<lparr>ds = dates (fst p), y = to_numeric_coerce lib (nav (snd p))\<rparr>)
               (enumerate n records))
   = List.map_filter
       (\<lambda>p. map_option (\<lambda>x. \<lparr>ds = dates (fst p), y = x\<rparr>) (numeric lib (nav (snd p))))
       (enumerate n records)"
proof (induction records arbitrary: n)
  case Nil
  then show ?case by (simp add: dropna_y_def List.map_filter_simps)
next
  case (Cons r rs)
  have step: "dropna_y (x # xs) = (if y x = NaN then dropna_y xs else x # dropna_y xs)"
    for x xs by (simp add: dropna_y_def)
  have coerce: "numeric lib c =
      (if to_numeric_coerce lib c = NaN then None else Some (to_numeric_coerce lib c))" for c
    by (simp add: numeric_def to_numeric_coerce_def split: cell.splits jvalue.splits option.splits)
  show ?case
    using Cons.IH[of "Suc n"] by (simp add: step coerce List.map_filter_simps)
qed

lemma valid_rows_dropna:
  "dropna_y (map (\<lambda>p. \<lparr>ds = dates (fst p), y = to_numeric_coerce lib (nav (snd p))\<rparr>)
               (enumerate 0 records))
   = valid_rows lib dates records"
  unfolding valid_rows_def by (rule rows_dropna)

lemma map_filter_enumerate_length:
  "length (List.map_filter (\<lambda>p. map_option (g (fst p)) (f (snd p))) (enumerate n xs))
     = length (filter (\<lambda>x. f x \<noteq> None) xs)"
  by (induction xs arbitrary: n) (auto simp: List.map_filter_simps)

lemma valid_rows_length:
  "length (valid_rows lib dates records) = length (filter (has_value lib) records)"
proof -
  have "length (List.map_filter
           (\<lambda>p. map_option (\<lambda>x. \<lparr>ds = dates (fst p), y = x\<rparr>) (numeric lib (nav (snd p))))
           (enumerate 0 records))
        = length (filter (\<lambda>r. numeric lib (nav r) \<noteq> None) records)"
    by (rule map_filter_enumerate_length[where g = "\<lambda>i x. \<lparr>ds = dates i, y = x\<rparr>"
          and f = "\<lambda>r. numeric lib (nav r)"])
  then show ?thesis
    unfolding valid_rows_def has_value_def .
qed



lemma key_error_nonempty: "key_error k \<noteq> []"
  by (simp add: key_error_def)

text \<open>
  The run of the function on a response that passes lines 15-20 and on which the
  pandas calls return: a non-empty array of records with both columns.
\<close>

lemma fetch_try_normal:
  assumes "http_get (url fund_code) = Json (Records records)" "records \<noteq> []"
    "has_column date records" "has_column nav records"
    "to_datetime lib (map date records) = Inr dates" "no_fault lib"
  shows "fetch_try lib http_get fund_code =
     (if length (valid_rows lib dates records) < 2 then Inr (None, Some not_enough_message)
      else Inr (Some (valid_rows lib dates records), None))"
  using assms
  by (simp add: fetch_try_def no_fault_def raising_def Let_def valid_rows_dropna)

lemma fetch_normal:
  assumes "http_get (url fund_code) = Json (Records records)" "records \<noteq> []"
    "has_column date records" "has_column nav records"
    "to_datetime lib (map date records) = Inr dates" "no_fault lib"
  shows "fetch_mutual_fund_data lib http_get fund_code =
     Inr (if length (valid_rows lib dates records) < 2 then (None, Some not_enough_message)
          else (Some (valid_rows lib dates records), None))"
  unfolding fetch_mutual_fund_data_def
  using fetch_try_normal[of http_get fund_code records lib dates] assms by simp

text \<open>Evaluation of the example parser on the example columns.\<close>

lemma sample_dates_bad_value:
  "sample_to_datetime [Val ''2023-01-01'', Val ''2023-01-02'']
     = Inr (datetime_at [Val ''2023-01-01'', Val ''2023-01-02''])"
  by (simp add: sample_to_datetime_def readable_def iso_date_def number_def digit_def
      days_in_month_def Let_def)

lemma sample_dates_string_value:
  "sample_to_datetime [Val ''2023-01-01'', Val ''2023-01-02'', Val ''2023-01-03'']
     = Inr (datetime_at [Val ''2023-01-01'', Val ''2023-01-02'', Val ''2023-01-03''])"
  by (simp add: sample_to_datetime_def readable_def iso_date_def number_def digit_def
      days_in_month_def Let_def)

lemma sample_dates_bad_date:
  "sample_to_datetime [Val ''2023-01-01'', Val ''bad'', Val ''2023-01-03'']
     = Inl (Exception datetime_error_text)"
  by (simp add: sample_to_datetime_def readable_def iso_date_def nat_strings_def)

lemma sample_dates_empty_date:
  "sample_to_datetime [Val ''2023-01-01'', Val '''', Val ''2023-01-03'']
     = Inr (datetime_at [Val ''2023-01-01'', Val '''', Val ''2023-01-03''])"
  by (simp add: sample_to_datetime_def readable_def iso_date_def number_def digit_def
      days_in_month_def nat_strings_def Let_def)

lemma sample_dates_good:
  "sample_to_datetime [Val ''2023-01-01'', Val ''2023-01-03'']
     = Inr (datetime_at [Val ''2023-01-01'', Val ''2023-01-03''])"
  by (simp add: sample_to_datetime_def readable_def iso_date_def number_def digit_def
      days_in_month_def Let_def)

lemma sample_no_fault: "no_fault sample_pandas"
  by (simp add: no_fault_def sample_pandas_def)

lemmas sample_eval =
  sample_pandas_def always_def has_column_def valid_rows_def numeric_def decimal_def
  number_def digit_def datetime_at_def iso_date_def days_in_month_def days_from_civil_def
  List.map_filter_simps enumerate_simps Let_def

text \<open>
  C4. When the \<^verbatim>\<open>data\<close> member of the response is the empty array, the function
  returns no series and the message that no data is available.
\<close>

theorem empty_data_no_data_error:
  "http_get (url fund_code) = Json (Records []) \<Longrightarrow>
   fetch_mutual_fund_data lib http_get fund_code = Inr (None, Some no_data_message)"
  by (simp add: fetch_mutual_fund_data_def fetch_try_def)

theorem empty_data_no_data_error_witness:
  "fetch_mutual_fund_data sample_pandas (always (Json (Records []))) ''HDFC.MF''
     = Inr (None, Some ''No data available for the specified mutual fund code.'')"
  using empty_data_no_data_error[of "always (Json (Records []))" "''HDFC.MF''" sample_pandas]
  by (simp add: always_def no_data_message_def)

text \<open>
  C3, as the code has it. On a response that reaches line 21 and on which the pandas
  calls return (a non-empty array of records with a \<^verbatim>\<open>date\<close> and a \<^verbatim>\<open>nav\<close> column,
  \<^verbatim>\<open>pd.to_datetime\<close> not raising), the values are coerced to numbers, the rows whose
  value fails coercion are dropped and the others are kept in their order; the
  function returns the message that there are not enough data points exactly when
  fewer than two valid rows remain, and the valid rows otherwise.
\<close>

theorem normalizer_insufficient_data:
  assumes "http_get (url fund_code) = Json (Records records)" and "records \<noteq> []"
    and "has_column date records" and "has_column nav records"
    and "to_datetime lib (map date records) = Inr dates" and "no_fault lib"
  shows "fetch_mutual_fund_data lib http_get fund_code =
           Inr (if length (valid_rows lib dates records) < 2
                then (None, Some not_enough_message)
                else (Some (valid_rows lib dates records), None)) \<and>
         (fetch_mutual_fund_data lib http_get fund_code = Inr (None, Some not_enough_message)
            \<longleftrightarrow> length (filter (has_value lib) records) < 2)"
proof -
  have "fetch_mutual_fund_data lib http_get fund_code =
           Inr (if length (valid_rows lib dates records) < 2
                then (None, Some not_enough_message)
                else (Some (valid_rows lib dates records), None))"
    using fetch_normal[of http_get fund_code records lib dates] assms by simp
  then show ?thesis
    by (simp add: valid_rows_length)
qed

text \<open>
  The scenario of the specification: of the two rows (2023-01-01, 100) and
  (2023-01-02, "bad") the second is dropped, and one row is not enough. And of the
  three values 100, "101" and \<^verbatim>\<open>null\<close>, the string is coerced to the number 101 and
  the third row is dropped.
\<close>

theorem normalizer_insufficient_data_witness:
  "fetch_mutual_fund_data sample_pandas (always bad_value_response) ''HDFC.MF''
     = Inr (None, Some ''Not enough data points for prediction.'') \<and>
   fetch_mutual_fund_data sample_pandas (always string_value_response) ''HDFC.MF''
     = Inr (Some [\<lparr>ds = Some 19358, y = Fin 100\<rparr>, \<lparr>ds = Some 19359, y = Fin 101\<rparr>], None)"
proof -
  have a: "fetch_mutual_fund_data sample_pandas (always bad_value_response) ''HDFC.MF''
     = Inr (None, Some ''Not enough data points for prediction.'')"
    using normalizer_insufficient_data[of "always bad_value_response" "''HDFC.MF''"
       "[\<lparr>date = Val ''2023-01-01'', nav = Val (JNum (Fin 100))\<rparr>,
         \<lparr>date = Val ''2023-01-02'', nav = Val (JStr ''bad'')\<rparr>]"
       sample_pandas "datetime_at [Val ''2023-01-01'', Val ''2023-01-02'']"]
      sample_dates_bad_value sample_no_fault
    by (simp add: bad_value_response_def not_enough_message_def sample_eval)
  have b: "fetch_mutual_fund_data sample_pandas (always string_value_response) ''HDFC.MF''
     = Inr (Some [\<lparr>ds = Some 19358, y = Fin 100\<rparr>, \<lparr>ds = Some 19359, y = Fin 101\<rparr>], None)"
    using normalizer_insufficient_data[of "always string_value_response" "''HDFC.MF''"
       "[\<lparr>date = Val ''2023-01-01'', nav = Val (JNum (Fin 100))\<rparr>,
         \<lparr>date = Val ''2023-01-02'', nav = Val (JStr ''101'')\<rparr>,
         \<lparr>date = Val ''2023-01-03'', nav = Null\<rparr>]"
       sample_pandas
       "datetime_at [Val ''2023-01-01'', Val ''2023-01-02'', Val ''2023-01-03'']"]
      sample_dates_string_value sample_no_fault
    by (simp add: string_value_response_def sample_eval)
  from a b show ?thesis by simp
qed

text \<open>
  No record has the member \<^verbatim>\<open>nav\<close>: no valid row remains, and the function returns
  the text of the \<^verbatim>\<open>KeyError\<close> of line 21, not the message that there are not enough
  data points. On the empty array, where no row remains either, it returns the message
  that no data is available.
\<close>

theorem normalizer_insufficient_data_counterexample:
  "fetch_mutual_fund_data sample_pandas (always no_nav_response) ''HDFC.MF''
     = Inr (None, Some (key_error ''y'')) \<and>
   key_error ''y'' \<noteq> not_enough_message \<and>
   fetch_mutual_fund_data sample_pandas (always (Json (Records []))) ''HDFC.MF''
     = Inr (None, Some no_data_message) \<and>
   no_data_message \<noteq> not_enough_message"
  by (simp add: fetch_mutual_fund_data_def fetch_try_def raising_def no_nav_response_def
      sample_dates_bad_value key_error_def not_enough_message_def no_data_message_def
      sample_pandas_def always_def has_column_def)

text \<open>
  C7, as the code has it. No row is dropped because of its timestamp. Where
  \<^verbatim>\<open>pd.to_datetime\<close> raises on the column of dates, the whole function ends: it returns
  no series and the text of that exception, however many valid rows there are. Where
  \<^verbatim>\<open>pd.to_datetime\<close> reads a date as \<^verbatim>\<open>NaT\<close> without raising, the row stays, with
  \<^verbatim>\<open>NaT\<close> as its timestamp: the rows that remain are those with a numeric value.
\<close>

theorem unparseable_timestamp_not_dropped:
  assumes "http_get (url fund_code) = Json (Records records)" and "records \<noteq> []"
    and "has_column date records" and "fault lib 18 = None"
  shows "(to_datetime lib (map date records) = Inl (Exception text) \<longrightarrow>
            fetch_mutual_fund_data lib http_get fund_code = Inr (None, Some text)) \<and>
         (to_datetime lib (map date records) = Inr dates \<and> has_column nav records \<and>
          no_fault lib \<longrightarrow>
            fetch_mutual_fund_data lib http_get fund_code =
              Inr (if length (valid_rows lib dates records) < 2
                   then (None, Some not_enough_message)
                   else (Some (valid_rows lib dates records), None)) \<and>
            length (valid_rows lib dates records) = length (filter (has_value lib) records))"
proof (intro conjI impI)
  assume "to_datetime lib (map date records) = Inl (Exception text)"
  with assms show "fetch_mutual_fund_data lib http_get fund_code = Inr (None, Some text)"
    by (simp add: fetch_mutual_fund_data_def fetch_try_def raising_def)
next
  assume h: "to_datetime lib (map date records) = Inr dates \<and> has_column nav records \<and>
          no_fault lib"
  with assms show "fetch_mutual_fund_data lib http_get fund_code =
              Inr (if length (valid_rows lib dates records) < 2
                   then (None, Some not_enough_message)
                   else (Some (valid_rows lib dates records), None))"
    using fetch_normal[of http_get fund_code records lib dates] by simp
next
  show "length (valid_rows lib dates records) = length (filter (has_value lib) records)"
    by (rule valid_rows_length)
qed

text \<open>
  With the date "bad" in the second of three records the function returns the text of
  the exception; with an empty date there it returns all three rows, the second with
  \<^verbatim>\<open>NaT\<close>.
\<close>

theorem unparseable_timestamp_not_dropped_witness:
  "fetch_mutual_fund_data sample_pandas (always bad_date_response) ''HDFC.MF''
     = Inr (None, Some datetime_error_text) \<and>
   fetch_mutual_fund_data sample_pandas (always empty_date_response) ''HDFC.MF''
     = Inr (Some [\<lparr>ds = Some 19358, y = Fin 100\<rparr>, \<lparr>ds = None, y = Fin 101\<rparr>,
                  \<lparr>ds = Some 19360, y = Fin 102\<rparr>], None)"
proof -
  have a: "fetch_mutual_fund_data sample_pandas (always bad_date_response) ''HDFC.MF''
     = Inr (None, Some datetime_error_text)"
    using unparseable_timestamp_not_dropped[of "always bad_date_response" "''HDFC.MF''"
       "[\<lparr>date = Val ''2023-01-01'', nav = Val (JNum (Fin 100))\<rparr>,
         \<lparr>date = Val ''bad'', nav = Val (JNum (Fin 101))\<rparr>,
         \<lparr>date = Val ''2023-01-03'', nav = Val (JNum (Fin 102))\<rparr>]"
       sample_pandas datetime_error_text]
      sample_dates_bad_date
    by (simp add: bad_date_response_def sample_pandas_def always_def has_column_def)
  have b: "fetch_mutual_fund_data sample_pandas (always empty_date_response) ''HDFC.MF''
     = Inr (Some [\<lparr>ds = Some 19358, y = Fin 100\<rparr>, \<lparr>ds = None, y = Fin 101\<rparr>,
                  \<lparr>ds = Some 19360, y = Fin 102\<rparr>], None)"
    using unparseable_timestamp_not_dropped[of "always empty_date_response" "''HDFC.MF''"
       "[\<lparr>date = Val ''2023-01-01'', nav = Val (JNum (Fin 100))\<rparr>,
         \<lparr>date = Val '''', nav = Val (JNum (Fin 101))\<rparr>,
         \<lparr>date = Val ''2023-01-03'', nav = Val (JNum (Fin 102))\<rparr>]"
       sample_pandas _ "datetime_at [Val ''2023-01-01'', Val '''', Val ''2023-01-03'']"]
      sample_dates_empty_date sample_no_fault
    by (simp add: empty_date_response_def sample_eval)
  from a b show ?thesis by simp
qed

text \<open>
  Three records, the second with the date "bad": the function returns no series,
  although the two other records alone give a series of two rows.
\<close>

theorem unparseable_timestamp_counterexample:
  "fetch_mutual_fund_data sample_pandas (always bad_date_response) ''HDFC.MF''
     = Inr (None, Some datetime_error_text) \<and>
   fetch_mutual_fund_data sample_pandas (always good_response) ''HDFC.MF''
     = Inr (Some [\<lparr>ds = Some 19358, y = Fin 100\<rparr>, \<lparr>ds = Some 19360, y = Fin 102\<rparr>], None)"
  by (simp add: fetch_mutual_fund_data_def fetch_try_def raising_def bad_date_response_def
      good_response_def sample_dates_bad_date sample_dates_good to_numeric_coerce_def
      dropna_y_def sample_eval)




text \<open>
  A caught exception without a text, raised by the request or by a pandas call: the
  message returned is the empty string, which the test \<^verbatim>\<open>if error:\<close> of line 119
  takes for no error.
\<close>

lemma empty_text_returned:
  "fetch_mutual_fund_data sample_pandas (always (Raised MemoryError)) ''HDFC.MF''
     = Inr (None, Some [])"
  by (simp add: fetch_mutual_fund_data_def fetch_try_def always_def MemoryError_def)

lemma empty_text_returned_from_pandas:
  "fetch_mutual_fund_data (sample_pandas\<lparr>fault := (fault sample_pandas)(22 := Some MemoryError)\<rparr>)
     (always good_response) ''HDFC.MF'' = Inr (None, Some [])"
  by (simp add: fetch_mutual_fund_data_def fetch_try_def raising_def good_response_def
      sample_dates_good sample_pandas_def always_def has_column_def MemoryError_def)

end
